theory Spec2Isabelle
  imports Complex_Main
begin

section \<open>Random operands of mars.tensor: uniform and weibull\<close>

text \<open>
  The two modules \<^verbatim>\<open>mars/tensor/expressions/random/uniform.py\<close> and
  \<^verbatim>\<open>weibull.py\<close> each hold an operand class (\<^verbatim>\<open>TensorUniform\<close>,
  \<^verbatim>\<open>TensorWeibull\<close>) and a public function (\<^verbatim>\<open>uniform\<close>, \<^verbatim>\<open>weibull\<close>).
  Python objects with mutable state are cells of an explicit store; exceptions are
  the left summand of a result.
\<close>

subsection \<open>Values\<close>

text \<open>The internal state of a random generator is opaque.\<close>

type_synonym gen = nat

datatype dtype = Dtype string

text \<open>The Python values that travel through keyword arguments.\<close>

datatype pyval = PyNone | PyBool bool | PyInt int | PyStr string | PyDtype dtype

text \<open>
  The exceptions: the four classes of the specification's taxonomy, and the three
  builtin classes that the interpreter and NumPy raise.
\<close>

datatype error =
    TypeConversionError | InvalidShapeError | ParameterDomainError | BroadcastShapeError
  | TypeError | ValueError | OverflowError

text \<open>
  A distribution parameter is a Python scalar or an array-like value, of which the
  shape and the flattened elements are kept.
\<close>

datatype param = Scalar rat | ArrayLike "nat list" "rat list"

text \<open>The \<^verbatim>\<open>size\<close> argument: absent, one integer, or a tuple of integers.\<close>

datatype size_arg = SizeNone | SizeInt int | SizeTuple "int list"

text \<open>What is read of an eager NumPy result: its element type and its shape.\<close>

record ndarray =
  arr_dtype :: dtype
  arr_shape :: "nat list"

type_synonym kwargs = "string \<rightharpoonup> pyval"

subsection \<open>The store\<close>

text \<open>
  Every generator object lives in a cell of the store, addressed by its index. The
  caller's \<^verbatim>\<open>random_state\<close> is such an address, and the cell holds what its
  attribute \<^verbatim>\<open>_state\<close> reads. \<open>seeds_drawn\<close> counts the seeds taken from the
  operating system so far.
\<close>

record world =
  heap :: "gen list"
  seeds_drawn :: nat

subsection \<open>Collaborators outside the two modules\<close>

text \<open>
  The functions the two modules call, but do not define, are parameters of the model:
  \<^item> \<open>handle_array\<close>, imported from \<^verbatim>\<open>.core\<close>;
  \<^item> \<open>os_seed\<close>, the seed the operating system hands to the \<open>n\<close>-th
    \<^verbatim>\<open>np.random.RandomState()\<close> built without a seed;
  \<^item> \<open>np_uniform\<close> and \<open>np_weibull\<close>, the eager draws of NumPy's generator: from
    the generator's state, the parameters and the size, to the result (or the
    exception) and the generator's next state;
  \<^item> \<open>np_dtype\<close>, NumPy's \<^verbatim>\<open>np.dtype\<close>.
\<close>

record env =
  handle_array :: "param \<Rightarrow> error + param"
  os_seed :: "nat \<Rightarrow> gen"
  np_uniform :: "gen \<Rightarrow> param \<Rightarrow> param \<Rightarrow> nat list \<Rightarrow> (error + ndarray) \<times> gen"
  np_weibull :: "gen \<Rightarrow> param \<Rightarrow> nat list \<Rightarrow> (error + ndarray) \<times> gen"
  np_dtype :: "pyval \<Rightarrow> error + dtype"

text \<open>
  \<^verbatim>\<open>np.random.RandomState()\<close>: a new generator object, in a new cell, seeded by the
  operating system.
\<close>

definition np_random_RandomState :: "env \<Rightarrow> world \<Rightarrow> nat \<times> world" where
  "np_random_RandomState e w =
     (length (heap w),
      w\<lparr>heap := heap w @ [os_seed e (seeds_drawn w)], seeds_drawn := Suc (seeds_drawn w)\<rparr>)"

text \<open>The methods \<^verbatim>\<open>uniform\<close> and \<^verbatim>\<open>weibull\<close> of the generator object at address \<open>p\<close>.\<close>

definition RandomState_uniform ::
  "env \<Rightarrow> world \<Rightarrow> nat \<Rightarrow> param \<Rightarrow> param \<Rightarrow> nat list \<Rightarrow> (error + ndarray) \<times> world" where
  "RandomState_uniform e w p lo hi sz =
     (case np_uniform e (heap w ! p) lo hi sz of
        (res, g) \<Rightarrow> (res, w\<lparr>heap := (heap w)[p := g]\<rparr>))"

definition RandomState_weibull ::
  "env \<Rightarrow> world \<Rightarrow> nat \<Rightarrow> param \<Rightarrow> nat list \<Rightarrow> (error + ndarray) \<times> world" where
  "RandomState_weibull e w p a sz =
     (case np_weibull e (heap w ! p) a sz of
        (res, g) \<Rightarrow> (res, w\<lparr>heap := (heap w)[p := g]\<rparr>))"

subsection \<open>Operands\<close>

datatype op_class = TensorUniform | TensorWeibull

text \<open>The class attribute \<^verbatim>\<open>_input_fields_\<close>.\<close>

fun input_fields :: "op_class \<Rightarrow> string list" where
  "input_fields TensorUniform = [''_low'', ''_high'']"
| "input_fields TensorWeibull = [''_a'']"

text \<open>
  The fields an operand is built with, named after the keywords
  \<^verbatim>\<open>_size\<close>, \<^verbatim>\<open>_state\<close>, \<^verbatim>\<open>_dtype\<close>, \<^verbatim>\<open>_gpu\<close> that \<^verbatim>\<open>__init__\<close> hands to the
  base class, and the remaining keywords.
\<close>

record operand =
  op_class :: op_class
  op_size :: "nat list option"
  op_state :: gen
  op_dtype :: "dtype option"
  op_gpu :: pyval
  op_extra :: kwargs

text \<open>
  Modelled from the spec: the device hint of the operand, which the base classes
  (not among the two modules) keep. Section 3 has it a boolean that defaults to
  false: a hint that is not given, \<^verbatim>\<open>None\<close>, is the boolean false, and a hint
  that is given is kept.
\<close>

fun gpu_flag :: "pyval \<Rightarrow> pyval" where
  "gpu_flag PyNone = PyBool False"
| "gpu_flag v = v"

text \<open>
  Modelled from the spec: the constructor of the base classes
  \<^verbatim>\<open>operands.Uniform\<close> and \<^verbatim>\<open>operands.Weibull\<close>, which are not among the two
  modules. It keeps the size, the state and the dtype it is given, the device hint
  as section 3 has it, and the remaining keywords, as the fields of the operand
  value. A keyword of \<^verbatim>\<open>**kw\<close> that repeats one written at the call is Python's
  \<^verbatim>\<open>TypeError\<close>.
\<close>

definition Operand_init ::
  "op_class \<Rightarrow> nat list option \<Rightarrow> gen \<Rightarrow> dtype option \<Rightarrow> pyval \<Rightarrow> kwargs \<Rightarrow> error + operand" where
  "Operand_init c siz state dt gpu kw =
     (if kw ''_size'' \<noteq> None \<or> kw ''_state'' \<noteq> None \<or> kw ''_dtype'' \<noteq> None \<or> kw ''_gpu'' \<noteq> None
      then Inl TypeError
      else Inr \<lparr>op_class = c, op_size = siz, op_state = state, op_dtype = dt,
                op_gpu = gpu_flag gpu, op_extra = kw\<rparr>)"

text \<open>
  \<^verbatim>\<open>TensorUniform.__init__(self, size=None, state=None, dtype=None, gpu=None, **kw)\<close>:
  \<^verbatim>\<open>dtype = np.dtype(dtype) if dtype is not None else dtype\<close>, then the base class.
  \<^verbatim>\<open>TensorWeibull.__init__\<close> has the same body.
\<close>

definition TensorUniform_init ::
  "env \<Rightarrow> nat list option \<Rightarrow> gen \<Rightarrow> pyval \<Rightarrow> pyval \<Rightarrow> kwargs \<Rightarrow> error + operand" where
  "TensorUniform_init e siz state dtype gpu kw =
     (case (if dtype \<noteq> PyNone then map_sum id Some (np_dtype e dtype) else Inr None) of
        Inl err \<Rightarrow> Inl err
      | Inr dt \<Rightarrow> Operand_init TensorUniform siz state dt gpu kw)"

definition TensorWeibull_init ::
  "env \<Rightarrow> nat list option \<Rightarrow> gen \<Rightarrow> pyval \<Rightarrow> pyval \<Rightarrow> kwargs \<Rightarrow> error + operand" where
  "TensorWeibull_init e siz state dtype gpu kw =
     (case (if dtype \<noteq> PyNone then map_sum id Some (np_dtype e dtype) else Inr None) of
        Inl err \<Rightarrow> Inl err
      | Inr dt \<Rightarrow> Operand_init TensorWeibull siz state dt gpu kw)"

text \<open>
  The calls \<^verbatim>\<open>TensorUniform(size=size, state=random_state._state, gpu=gpu, **kw)\<close>
  and \<^verbatim>\<open>TensorWeibull(...)\<close>: a key of \<^verbatim>\<open>kw\<close> that repeats a written keyword is a
  \<^verbatim>\<open>TypeError\<close>; the key \<^verbatim>\<open>dtype\<close> binds the parameter of that name, whose
  default is \<^verbatim>\<open>None\<close>; the other keys stay in \<^verbatim>\<open>**kw\<close>.
\<close>

definition new_TensorUniform ::
  "env \<Rightarrow> nat list option \<Rightarrow> gen \<Rightarrow> pyval \<Rightarrow> kwargs \<Rightarrow> error + operand" where
  "new_TensorUniform e siz state gpu kw =
     (if kw ''size'' \<noteq> None \<or> kw ''state'' \<noteq> None \<or> kw ''gpu'' \<noteq> None then Inl TypeError
      else TensorUniform_init e siz state
             (case kw ''dtype'' of None \<Rightarrow> PyNone | Some v \<Rightarrow> v) gpu (kw(''dtype'' := None)))"

definition new_TensorWeibull ::
  "env \<Rightarrow> nat list option \<Rightarrow> gen \<Rightarrow> pyval \<Rightarrow> kwargs \<Rightarrow> error + operand" where
  "new_TensorWeibull e siz state gpu kw =
     (if kw ''size'' \<noteq> None \<or> kw ''state'' \<noteq> None \<or> kw ''gpu'' \<noteq> None then Inl TypeError
      else TensorWeibull_init e siz state
             (case kw ''dtype'' of None \<Rightarrow> PyNone | Some v \<Rightarrow> v) gpu (kw(''dtype'' := None)))"

subsection \<open>Graph nodes\<close>

datatype param_ref = Const rat | InputRef nat

record node =
  node_op :: operand
  node_params :: "(string \<times> param_ref) list"
  node_inputs :: "param list"
  node_shape :: "nat list"
  node_chunks :: pyval

fun is_array_like :: "param \<Rightarrow> bool" where
  "is_array_like (Scalar c) = False"
| "is_array_like (ArrayLike sh xs) = True"

fun param_shape :: "param \<Rightarrow> nat list" where
  "param_shape (Scalar c) = []"
| "param_shape (ArrayLike sh xs) = sh"

text \<open>
  Modelled from the spec: the broadcast of shapes (section 4.5, step 2), which the
  two modules do not define: dimensions are aligned from the right, a dimension of
  size 1 broadcasts against any size, and two different sizes other than 1 are an
  error.
\<close>

fun broadcast_dim :: "nat \<Rightarrow> nat \<Rightarrow> error + nat" where
  "broadcast_dim a b =
     (if a = b then Inr a else if a = 1 then Inr b else if b = 1 then Inr a
      else Inl BroadcastShapeError)"

fun broadcast_rev :: "nat list \<Rightarrow> nat list \<Rightarrow> error + nat list" where
  "broadcast_rev [] ys = Inr ys"
| "broadcast_rev (x # xs) [] = Inr (x # xs)"
| "broadcast_rev (x # xs) (y # ys) =
     (case broadcast_dim x y of
        Inl err \<Rightarrow> Inl err
      | Inr d \<Rightarrow> (case broadcast_rev xs ys of Inl err \<Rightarrow> Inl err | Inr ds \<Rightarrow> Inr (d # ds)))"

definition broadcast_shape :: "nat list \<Rightarrow> nat list \<Rightarrow> error + nat list" where
  "broadcast_shape a b = map_sum id rev (broadcast_rev (rev a) (rev b))"

fun broadcast_shapes :: "nat list list \<Rightarrow> error + nat list" where
  "broadcast_shapes [] = Inr []"
| "broadcast_shapes (s # ss) =
     (case broadcast_shapes ss of Inl err \<Rightarrow> Inl err | Inr b \<Rightarrow> broadcast_shape s b)"

text \<open>
  Modelled from the spec: step 1 of section 4.5. An array-like parameter becomes the
  next declared input of the node, a scalar is embedded as a constant.
\<close>

fun register_params :: "nat \<Rightarrow> param list \<Rightarrow> param_ref list" where
  "register_params n [] = []"
| "register_params n (Scalar c # ps) = Const c # register_params n ps"
| "register_params n (ArrayLike sh xs # ps) = InputRef n # register_params (Suc n) ps"

text \<open>
  Modelled from the spec: \<^verbatim>\<open>TensorRandomOperandMixin.new_tensor\<close>, the graph node
  constructor of section 4.5, which is not among the two modules. Array-like inputs
  of incompatible shapes are a \<^verbatim>\<open>BroadcastShapeError\<close>. The advertised shape is
  the shape argument when one is given, else the operand's resolved shape, else the
  broadcast of the shapes of the array-like inputs. The chunk hint is attached as it
  is, and nothing is sampled.
\<close>

definition new_tensor ::
  "operand \<Rightarrow> param list \<Rightarrow> nat list option \<Rightarrow> pyval \<Rightarrow> error + node" where
  "new_tensor op inputs shape raw_chunks =
     (case broadcast_shapes (map param_shape (filter is_array_like inputs)) of
        Inl err \<Rightarrow> Inl err
      | Inr b \<Rightarrow>
          Inr \<lparr>node_op = op,
               node_params = zip (input_fields (op_class op)) (register_params 0 inputs),
               node_inputs = filter is_array_like inputs,
               node_shape = (case shape of
                               Some s \<Rightarrow> s
                             | None \<Rightarrow> (case op_size op of Some s \<Rightarrow> s | None \<Rightarrow> b)),
               node_chunks = raw_chunks\<rparr>)"

text \<open>
  \<^verbatim>\<open>TensorUniform.__call__(self, low, high, chunks=None)\<close> and
  \<^verbatim>\<open>TensorWeibull.__call__(self, a, chunks=None)\<close>.
\<close>

definition TensorUniform_call :: "operand \<Rightarrow> param \<Rightarrow> param \<Rightarrow> pyval \<Rightarrow> error + node" where
  "TensorUniform_call self low high chunks = new_tensor self [low, high] None chunks"

definition TensorWeibull_call :: "operand \<Rightarrow> param \<Rightarrow> pyval \<Rightarrow> error + node" where
  "TensorWeibull_call self a chunks = new_tensor self [a] None chunks"

subsection \<open>Size canonicalisation\<close>

text \<open>
  Modelled from the spec: \<^verbatim>\<open>RandomState._handle_size\<close>, the shape resolver of
  section 4.2, which is not among the two modules. An absent size stays absent, an
  integer becomes the tuple of that one extent, a tuple is kept; a negative
  dimension is an \<^verbatim>\<open>InvalidShapeError\<close>.
\<close>

definition handle_size :: "size_arg \<Rightarrow> error + nat list option" where
  "handle_size siz =
     (case siz of
        SizeNone \<Rightarrow> Inr None
      | SizeInt n \<Rightarrow> if n < 0 then Inl InvalidShapeError else Inr (Some [nat n])
      | SizeTuple ns \<Rightarrow>
          if list_ex (\<lambda>n. n < 0) ns then Inl InvalidShapeError else Inr (Some (map nat ns)))"

subsection \<open>The public functions\<close>

text \<open>
  Lines 116 to 118 of \<^verbatim>\<open>uniform\<close>:
  \<^verbatim>\<open>
  if 'dtype' not in kw:
      kw['dtype'] = np.random.RandomState().uniform(
          handle_array(low), handle_array(high), size=(0,)).dtype
  \<close>
  The generator is built first, then the two arguments are normalised, then the draw
  of size \<open>(0,)\<close> is made on the new generator.
\<close>

definition uniform_kw_dtype ::
  "env \<Rightarrow> world \<Rightarrow> param \<Rightarrow> param \<Rightarrow> kwargs \<Rightarrow> (error + kwargs) \<times> world" where
  "uniform_kw_dtype e w low high kw =
     (if kw ''dtype'' = None then
        (case np_random_RandomState e w of
           (p, w1) \<Rightarrow>
             (case handle_array e low of
                Inl err \<Rightarrow> (Inl err, w1)
              | Inr la \<Rightarrow>
                  (case handle_array e high of
                     Inl err \<Rightarrow> (Inl err, w1)
                   | Inr ha \<Rightarrow>
                       (case RandomState_uniform e w1 p la ha [0] of
                          (Inl err, w2) \<Rightarrow> (Inl err, w2)
                        | (Inr arr, w2) \<Rightarrow>
                            (Inr (kw(''dtype'' \<mapsto> PyDtype (arr_dtype arr))), w2)))))
      else (Inr kw, w))"

text \<open>The same lines of \<^verbatim>\<open>weibull\<close>, with the one parameter \<^verbatim>\<open>a\<close>.\<close>

definition weibull_kw_dtype ::
  "env \<Rightarrow> world \<Rightarrow> param \<Rightarrow> kwargs \<Rightarrow> (error + kwargs) \<times> world" where
  "weibull_kw_dtype e w a kw =
     (if kw ''dtype'' = None then
        (case np_random_RandomState e w of
           (p, w1) \<Rightarrow>
             (case handle_array e a of
                Inl err \<Rightarrow> (Inl err, w1)
              | Inr aa \<Rightarrow>
                  (case RandomState_weibull e w1 p aa [0] of
                     (Inl err, w2) \<Rightarrow> (Inl err, w2)
                   | (Inr arr, w2) \<Rightarrow>
                       (Inr (kw(''dtype'' \<mapsto> PyDtype (arr_dtype arr))), w2))))
      else (Inr kw, w))"

text \<open>
  The operand that \<^verbatim>\<open>uniform\<close> binds to \<^verbatim>\<open>op\<close> (lines 116 to 120): the dtype
  step, then \<^verbatim>\<open>size = random_state._handle_size(size)\<close>, then the constructor,
  which reads \<^verbatim>\<open>random_state._state\<close> from the cell \<open>r\<close> of the caller's object.
\<close>

definition uniform_operand ::
  "env \<Rightarrow> world \<Rightarrow> nat \<Rightarrow> param \<Rightarrow> param \<Rightarrow> size_arg \<Rightarrow> pyval \<Rightarrow> kwargs
     \<Rightarrow> (error + operand) \<times> world" where
  "uniform_operand e w r low high siz gpu kw =
     (case uniform_kw_dtype e w low high kw of
        (Inl err, w1) \<Rightarrow> (Inl err, w1)
      | (Inr kw1, w1) \<Rightarrow>
          (case handle_size siz of
             Inl err \<Rightarrow> (Inl err, w1)
           | Inr sz \<Rightarrow> (new_TensorUniform e sz (heap w1 ! r) gpu kw1, w1)))"

definition weibull_operand ::
  "env \<Rightarrow> world \<Rightarrow> nat \<Rightarrow> param \<Rightarrow> size_arg \<Rightarrow> pyval \<Rightarrow> kwargs
     \<Rightarrow> (error + operand) \<times> world" where
  "weibull_operand e w r a siz gpu kw =
     (case weibull_kw_dtype e w a kw of
        (Inl err, w1) \<Rightarrow> (Inl err, w1)
      | (Inr kw1, w1) \<Rightarrow>
          (case handle_size siz of
             Inl err \<Rightarrow> (Inl err, w1)
           | Inr sz \<Rightarrow> (new_TensorWeibull e sz (heap w1 ! r) gpu kw1, w1)))"

text \<open>
  \<^verbatim>\<open>uniform(random_state, low=0.0, high=1.0, size=None, chunks=None, gpu=None, **kw)\<close>
  and \<^verbatim>\<open>weibull(random_state, a, size=None, chunks=None, gpu=None, **kw)\<close>: the
  operand, then \<^verbatim>\<open>return op(low, high, chunks=chunks)\<close>. The model takes every
  parameter of the signature; an argument that a caller leaves out is written as its
  default (\<open>SizeNone\<close> for \<^verbatim>\<open>size\<close>, \<open>PyNone\<close> for \<^verbatim>\<open>chunks\<close> and
  \<^verbatim>\<open>gpu\<close>), and \<^verbatim>\<open>kw\<close> holds the keywords that name no parameter.
\<close>

definition uniform ::
  "env \<Rightarrow> world \<Rightarrow> nat \<Rightarrow> param \<Rightarrow> param \<Rightarrow> size_arg \<Rightarrow> pyval \<Rightarrow> pyval \<Rightarrow> kwargs
     \<Rightarrow> (error + node) \<times> world" where
  "uniform e w r low high siz chunks gpu kw =
     (case uniform_operand e w r low high siz gpu kw of
        (Inl err, w1) \<Rightarrow> (Inl err, w1)
      | (Inr op, w1) \<Rightarrow> (TensorUniform_call op low high chunks, w1))"

definition weibull ::
  "env \<Rightarrow> world \<Rightarrow> nat \<Rightarrow> param \<Rightarrow> size_arg \<Rightarrow> pyval \<Rightarrow> pyval \<Rightarrow> kwargs
     \<Rightarrow> (error + node) \<times> world" where
  "weibull e w r a siz chunks gpu kw =
     (case weibull_operand e w r a siz gpu kw of
        (Inl err, w1) \<Rightarrow> (Inl err, w1)
      | (Inr op, w1) \<Rightarrow> (TensorWeibull_call op a chunks, w1))"

subsection \<open>A concrete environment\<close>

text \<open>
  Modelled from the spec: \<^verbatim>\<open>handle_array\<close> of \<^verbatim>\<open>.core\<close>, the parameter
  normaliser of section 4.1, which is not among the two modules: a view of its
  argument that keeps the shape. Every value of \<open>param\<close> is numeric, so the
  \<^verbatim>\<open>TypeConversionError\<close> of that section does not arise.
\<close>

definition handle_array_spec :: "param \<Rightarrow> error + param" where
  "handle_array_spec p = Inr p"

text \<open>
  An environment that raises where NumPy does, to run the functions in. The
  elements of a parameter, laid out in a shape it broadcasts to: the element at the
  flat index \<open>i\<close> of the target is the one at \<open>src_index\<close> in the parameter, both
  shapes read from the last dimension.
\<close>

fun param_data :: "param \<Rightarrow> rat list" where
  "param_data (Scalar c) = [c]"
| "param_data (ArrayLike sh xs) = xs"

fun src_index :: "nat list \<Rightarrow> nat list \<Rightarrow> nat \<Rightarrow> nat" where
  "src_index [] ts i = 0"
| "src_index (d # ds) [] i = 0"
| "src_index (d # ds) (t # ts) i =
     (if d = 1 then 0 else i mod t) + d * src_index ds ts (i div t)"

definition broadcast_data :: "param \<Rightarrow> nat list \<Rightarrow> rat list" where
  "broadcast_data p t =
     map (\<lambda>i. let j = src_index (rev (param_shape p)) (rev t) i
               in if j < length (param_data p) then param_data p ! j else 0)
         [0 ..< prod_list t]"

text \<open>
  \<^verbatim>\<open>high - low\<close> is not finite in double precision when its exact value rounds
  beyond the largest double.
\<close>

definition range_overflows :: "rat \<Rightarrow> rat \<Rightarrow> bool" where
  "range_overflows lo hi = (2 ^ 1024 - 2 ^ 970 \<le> \<bar>hi - lo\<bar>)"

text \<open>
  The eager draws. \<^verbatim>\<open>uniform\<close>: bounds that do not broadcast are a
  \<^verbatim>\<open>ValueError\<close>, a range that is not finite is an \<^verbatim>\<open>OverflowError\<close>, a size
  that the bounds do not broadcast to is a \<^verbatim>\<open>ValueError\<close>. \<^verbatim>\<open>weibull\<close>: a
  negative \<^verbatim>\<open>a\<close> is a \<^verbatim>\<open>ValueError\<close>, and so is a size that \<^verbatim>\<open>a\<close> does not
  broadcast to. The result is a \<^verbatim>\<open>float64\<close> array, and the generator advances by
  one step for each element drawn.
\<close>

definition float64 :: dtype where
  "float64 = Dtype ''float64''"

definition demo_uniform :: "gen \<Rightarrow> param \<Rightarrow> param \<Rightarrow> nat list \<Rightarrow> (error + ndarray) \<times> gen" where
  "demo_uniform g lo hi sz =
     (case broadcast_shape (param_shape lo) (param_shape hi) of
        Inl err \<Rightarrow> (Inl ValueError, g)
      | Inr b \<Rightarrow>
          if list_ex (\<lambda>(l, h). range_overflows l h)
               (zip (broadcast_data lo b) (broadcast_data hi b))
          then (Inl OverflowError, g)
          else (case broadcast_shape b sz of
                  Inl err \<Rightarrow> (Inl ValueError, g)
                | Inr sh \<Rightarrow> (Inr \<lparr>arr_dtype = float64, arr_shape = sh\<rparr>, g + prod_list sh)))"

definition demo_weibull :: "gen \<Rightarrow> param \<Rightarrow> nat list \<Rightarrow> (error + ndarray) \<times> gen" where
  "demo_weibull g a sz =
     (if list_ex (\<lambda>x. x < 0) (param_data a) then (Inl ValueError, g)
      else (case broadcast_shape (param_shape a) sz of
              Inl err \<Rightarrow> (Inl ValueError, g)
            | Inr sh \<Rightarrow> (Inr \<lparr>arr_dtype = float64, arr_shape = sh\<rparr>, g + prod_list sh)))"

text \<open>
  \<^verbatim>\<open>np.dtype\<close>: a dtype object is returned as it is, \<^verbatim>\<open>None\<close> is
  \<^verbatim>\<open>float64\<close>, a type name or code that NumPy knows is its canonical type, and
  anything else is a \<^verbatim>\<open>TypeError\<close>.
\<close>

definition dtype_names :: "(string \<times> string) list" where
  "dtype_names =
     [(''float16'', ''float16''), (''float32'', ''float32''), (''float64'', ''float64''),
      (''f2'', ''float16''), (''f4'', ''float32''), (''f8'', ''float64''),
      (''int8'', ''int8''), (''int16'', ''int16''), (''int32'', ''int32''),
      (''int64'', ''int64''), (''i1'', ''int8''), (''i2'', ''int16''), (''i4'', ''int32''),
      (''i8'', ''int64''), (''uint8'', ''uint8''), (''uint16'', ''uint16''),
      (''uint32'', ''uint32''), (''uint64'', ''uint64''), (''bool'', ''bool'')]"

fun demo_dtype :: "pyval \<Rightarrow> error + dtype" where
  "demo_dtype (PyDtype d) = Inr d"
| "demo_dtype PyNone = Inr float64"
| "demo_dtype (PyStr s) =
     (case map_of dtype_names s of None \<Rightarrow> Inl TypeError | Some n \<Rightarrow> Inr (Dtype n))"
| "demo_dtype v = Inl TypeError"

text \<open>The \<open>n\<close>-th seed of the operating system is \<open>100 + n\<close>.\<close>

definition demo_env :: env where
  "demo_env =
     \<lparr>handle_array = handle_array_spec,
      os_seed = (\<lambda>n. 100 + n),
      np_uniform = demo_uniform,
      np_weibull = demo_weibull,
      np_dtype = demo_dtype\<rparr>"

definition demo_world :: world where
  "demo_world = \<lparr>heap = [7], seeds_drawn = 0\<rparr>"

section \<open>Properties\<close>

subsection \<open>The constructors\<close>

lemmas ctor_defs = new_TensorUniform_def new_TensorWeibull_def TensorUniform_init_def
  TensorWeibull_init_def Operand_init_def

lemmas run_defs = uniform_def weibull_def uniform_operand_def weibull_operand_def
  uniform_kw_dtype_def weibull_kw_dtype_def np_random_RandomState_def RandomState_uniform_def
  RandomState_weibull_def handle_size_def new_TensorUniform_def new_TensorWeibull_def
  TensorUniform_init_def TensorWeibull_init_def Operand_init_def TensorUniform_call_def
  TensorWeibull_call_def new_tensor_def broadcast_shape_def demo_env_def demo_world_def
  float64_def handle_array_spec_def demo_uniform_def demo_weibull_def broadcast_data_def
  range_overflows_def dtype_names_def

text \<open>What the dtype field of a built operand holds, by the key \<^verbatim>\<open>dtype\<close> of \<^verbatim>\<open>kw\<close>.\<close>

lemma new_TensorUniform_dtype:
  "new_TensorUniform e sz st gpu kw = Inr op \<Longrightarrow>
     (case kw ''dtype'' of None \<Rightarrow> op_dtype op = None
      | Some v \<Rightarrow> if v = PyNone then op_dtype op = None
                  else (\<exists>d. np_dtype e v = Inr d \<and> op_dtype op = Some d))"
  by (cases "np_dtype e (the (kw ''dtype''))")
     (auto simp: ctor_defs split: if_splits option.splits sum.splits)

lemma new_TensorWeibull_dtype:
  "new_TensorWeibull e sz st gpu kw = Inr op \<Longrightarrow>
     (case kw ''dtype'' of None \<Rightarrow> op_dtype op = None
      | Some v \<Rightarrow> if v = PyNone then op_dtype op = None
                  else (\<exists>d. np_dtype e v = Inr d \<and> op_dtype op = Some d))"
  by (cases "np_dtype e (the (kw ''dtype''))")
     (auto simp: ctor_defs split: if_splits option.splits sum.splits)

text \<open>The other fields are the arguments of the constructor.\<close>

lemma new_TensorUniform_fields:
  "new_TensorUniform e sz st gpu kw = Inr op \<Longrightarrow>
     op_size op = sz \<and> op_state op = st \<and> op_gpu op = gpu_flag gpu
     \<and> op_class op = TensorUniform"
  by (cases "np_dtype e (the (kw ''dtype''))")
     (auto simp: ctor_defs split: if_splits option.splits sum.splits)

lemma new_TensorWeibull_fields:
  "new_TensorWeibull e sz st gpu kw = Inr op \<Longrightarrow>
     op_size op = sz \<and> op_state op = st \<and> op_gpu op = gpu_flag gpu
     \<and> op_class op = TensorWeibull"
  by (cases "np_dtype e (the (kw ''dtype''))")
     (auto simp: ctor_defs split: if_splits option.splits sum.splits)

subsection \<open>Calls that carry the key dtype\<close>

text \<open>With the key present, whatever its value, lines 116 to 118 do nothing.\<close>

lemma uniform_kw_dtype_explicit:
  "kw ''dtype'' = Some v \<Longrightarrow> uniform_kw_dtype e w low high kw = (Inr kw, w)"
  by (simp add: uniform_kw_dtype_def)

lemma weibull_kw_dtype_explicit:
  "kw ''dtype'' = Some v \<Longrightarrow> weibull_kw_dtype e w a kw = (Inr kw, w)"
  by (simp add: weibull_kw_dtype_def)

lemma uniform_operand_explicit:
  "kw ''dtype'' = Some v \<Longrightarrow>
     uniform_operand e w r low high siz gpu kw =
       (case handle_size siz of Inl err \<Rightarrow> Inl err
        | Inr sz \<Rightarrow> new_TensorUniform e sz (heap w ! r) gpu kw, w)"
  by (simp add: uniform_operand_def uniform_kw_dtype_explicit split: sum.splits)

lemma weibull_operand_explicit:
  "kw ''dtype'' = Some v \<Longrightarrow>
     weibull_operand e w r a siz gpu kw =
       (case handle_size siz of Inl err \<Rightarrow> Inl err
        | Inr sz \<Rightarrow> new_TensorWeibull e sz (heap w ! r) gpu kw, w)"
  by (simp add: weibull_operand_def weibull_kw_dtype_explicit split: sum.splits)

text \<open>
  C10. When \<^verbatim>\<open>dtype=None\<close> is passed as a keyword, the guard, which tests the
  presence of the key and not its value, skips the probe: the dtype step returns
  \<^verbatim>\<open>kw\<close> and the store as they were, for \<^verbatim>\<open>uniform\<close> and for \<^verbatim>\<open>weibull\<close>, and
  the dtype field of every operand that is built is \<^verbatim>\<open>None\<close>.
\<close>

theorem dtype_None_stays_None:
  assumes "kw ''dtype'' = Some PyNone"
  shows "uniform_kw_dtype e w low high kw = (Inr kw, w)
       \<and> weibull_kw_dtype e w a kw = (Inr kw, w)
       \<and> snd (uniform_operand e w r low high siz gpu kw) = w
       \<and> snd (weibull_operand e w r a siz gpu kw) = w
       \<and> (\<forall>op. fst (uniform_operand e w r low high siz gpu kw) = Inr op \<longrightarrow> op_dtype op = None)
       \<and> (\<forall>op. fst (weibull_operand e w r a siz gpu kw) = Inr op \<longrightarrow> op_dtype op = None)"
  using assms
  by (auto simp: uniform_operand_explicit weibull_operand_explicit uniform_kw_dtype_explicit
        weibull_kw_dtype_explicit split: sum.splits
        dest: new_TensorUniform_dtype new_TensorWeibull_dtype)

theorem dtype_None_stays_None_witness:
  "[''dtype'' \<mapsto> PyNone] ''dtype'' = Some PyNone
   \<and> map_sum id op_dtype (fst (uniform_operand demo_env demo_world 0 (Scalar 0) (Scalar 1)
         SizeNone PyNone [''dtype'' \<mapsto> PyNone])) = Inr None
   \<and> map_sum id op_dtype (fst (weibull_operand demo_env demo_world 0 (Scalar 5)
         SizeNone PyNone [''dtype'' \<mapsto> PyNone])) = Inr None
   \<and> snd (uniform_operand demo_env demo_world 0 (Scalar 0) (Scalar 1)
         SizeNone PyNone [''dtype'' \<mapsto> PyNone]) = demo_world"
  using dtype_None_stays_None [of "[''dtype'' \<mapsto> PyNone]" demo_env demo_world
      "Scalar 0" "Scalar 1" "Scalar 5" 0 SizeNone PyNone]
  by (simp add: run_defs)

text \<open>
  C9. When the keyword \<^verbatim>\<open>dtype\<close> is passed with a value other than \<^verbatim>\<open>None\<close>,
  the dtype field of the operand that \<^verbatim>\<open>uniform\<close> or \<^verbatim>\<open>weibull\<close> builds is
  \<^verbatim>\<open>np.dtype\<close> of that value, and no probe is made: the dtype step returns
  \<^verbatim>\<open>kw\<close> as it was, and the store is left as it was (no generator is built).
\<close>

theorem explicit_dtype_is_np_dtype:
  assumes "kw ''dtype'' = Some v" and "v \<noteq> PyNone"
  shows "uniform_kw_dtype e w low high kw = (Inr kw, w)
       \<and> weibull_kw_dtype e w a kw = (Inr kw, w)
       \<and> snd (uniform_operand e w r low high siz gpu kw) = w
       \<and> snd (weibull_operand e w r a siz gpu kw) = w
       \<and> (\<forall>op. fst (uniform_operand e w r low high siz gpu kw) = Inr op \<longrightarrow>
             (\<exists>d. np_dtype e v = Inr d \<and> op_dtype op = Some d))
       \<and> (\<forall>op. fst (weibull_operand e w r a siz gpu kw) = Inr op \<longrightarrow>
             (\<exists>d. np_dtype e v = Inr d \<and> op_dtype op = Some d))"
  using assms
  by (auto simp: uniform_operand_explicit weibull_operand_explicit uniform_kw_dtype_explicit
        weibull_kw_dtype_explicit split: sum.splits
        dest: new_TensorUniform_dtype new_TensorWeibull_dtype)

theorem explicit_dtype_is_np_dtype_witness:
  "[''dtype'' \<mapsto> PyStr ''float32''] ''dtype'' = Some (PyStr ''float32'')
   \<and> PyStr ''float32'' \<noteq> PyNone
   \<and> np_dtype demo_env (PyStr ''float32'') = Inr (Dtype ''float32'')
   \<and> map_sum id op_dtype (fst (uniform_operand demo_env demo_world 0 (Scalar 0) (Scalar 1)
         SizeNone PyNone [''dtype'' \<mapsto> PyStr ''float32''])) = Inr (Some (Dtype ''float32''))
   \<and> map_sum id op_dtype (fst (weibull_operand demo_env demo_world 0 (Scalar 5)
         SizeNone PyNone [''dtype'' \<mapsto> PyStr ''float32''])) = Inr (Some (Dtype ''float32''))
   \<and> snd (uniform_operand demo_env demo_world 0 (Scalar 0) (Scalar 1)
         SizeNone PyNone [''dtype'' \<mapsto> PyStr ''float32'']) = demo_world
   \<and> snd (weibull_operand demo_env demo_world 0 (Scalar 5)
         SizeNone PyNone [''dtype'' \<mapsto> PyStr ''float32'']) = demo_world"
  using explicit_dtype_is_np_dtype [of "[''dtype'' \<mapsto> PyStr ''float32'']" "PyStr ''float32''"
      demo_env demo_world "Scalar 0" "Scalar 1" "Scalar 5" 0 SizeNone PyNone]
  by (simp add: run_defs)

text \<open>
  C2. The dtype field is not always set: the call
  \<^verbatim>\<open>uniform(random_state, 0, 1, dtype=None)\<close> returns a node whose operand has
  the dtype \<^verbatim>\<open>None\<close>.
\<close>

theorem operand_dtype_None_counterexample:
  "map_sum id (\<lambda>n. op_dtype (node_op n))
     (fst (uniform demo_env demo_world 0 (Scalar 0) (Scalar 1) SizeNone PyNone PyNone
        [''dtype'' \<mapsto> PyNone])) = Inr None"
  by (simp add: run_defs)

text \<open>
  C2, as the code has it. When the caller passes no \<^verbatim>\<open>dtype\<close> keyword, or passes
  one whose value is not \<^verbatim>\<open>None\<close>, the dtype field of every operand that
  \<^verbatim>\<open>uniform\<close> or \<^verbatim>\<open>weibull\<close> builds is not \<^verbatim>\<open>None\<close>.
\<close>

theorem operand_dtype_set:
  assumes "kw ''dtype'' \<noteq> Some PyNone"
  shows "(\<forall>op. fst (uniform_operand e w r low high siz gpu kw) = Inr op \<longrightarrow> op_dtype op \<noteq> None)
       \<and> (\<forall>op. fst (weibull_operand e w r a siz gpu kw) = Inr op \<longrightarrow> op_dtype op \<noteq> None)"
proof (cases "kw ''dtype''")
  case (Some v)
  with assms have "v \<noteq> PyNone" by simp
  have u: "op_dtype op \<noteq> None" if "fst (uniform_operand e w r low high siz gpu kw) = Inr op" for op
  proof -
    from that Some obtain sz where "new_TensorUniform e sz (heap w ! r) gpu kw = Inr op"
      by (auto simp: uniform_operand_explicit split: sum.splits)
    from new_TensorUniform_dtype [OF this] Some \<open>v \<noteq> PyNone\<close> show ?thesis by auto
  qed
  have v: "op_dtype op \<noteq> None" if "fst (weibull_operand e w r a siz gpu kw) = Inr op" for op
  proof -
    from that Some obtain sz where "new_TensorWeibull e sz (heap w ! r) gpu kw = Inr op"
      by (auto simp: weibull_operand_explicit split: sum.splits)
    from new_TensorWeibull_dtype [OF this] Some \<open>v \<noteq> PyNone\<close> show ?thesis by auto
  qed
  from u v show ?thesis by blast
next
  case None
  have u: "op_dtype op \<noteq> None" if "fst (uniform_operand e w r low high siz gpu kw) = Inr op" for op
    using that None
    by (auto simp: uniform_operand_def uniform_kw_dtype_def np_random_RandomState_def
          split: sum.splits prod.splits if_splits dest!: new_TensorUniform_dtype)
  have v: "op_dtype op \<noteq> None" if "fst (weibull_operand e w r a siz gpu kw) = Inr op" for op
    using that None
    by (auto simp: weibull_operand_def weibull_kw_dtype_def np_random_RandomState_def
          split: sum.splits prod.splits if_splits dest!: new_TensorWeibull_dtype)
  from u v show ?thesis by blast
qed

theorem operand_dtype_set_witness:
  "(Map.empty :: kwargs) ''dtype'' \<noteq> Some PyNone
   \<and> map_sum id op_dtype (fst (uniform_operand demo_env demo_world 0 (Scalar 0) (Scalar 1)
         SizeNone PyNone Map.empty)) = Inr (Some float64)
   \<and> map_sum id op_dtype (fst (weibull_operand demo_env demo_world 0 (Scalar 5)
         SizeNone PyNone Map.empty)) = Inr (Some float64)
   \<and> Some float64 \<noteq> None"
  using operand_dtype_set [of Map.empty demo_env demo_world 0 "Scalar 0" "Scalar 1"
      SizeNone PyNone "Scalar 5"]
  by (simp add: run_defs)

text \<open>The fields of the operand that the public functions build.\<close>

lemma uniform_operand_fields:
  "fst (uniform_operand e w r low high siz gpu kw) = Inr op \<Longrightarrow>
     op_gpu op = gpu_flag gpu \<and> op_class op = TensorUniform
     \<and> handle_size siz = Inr (op_size op)
     \<and> op_state op = heap (snd (uniform_operand e w r low high siz gpu kw)) ! r"
  by (auto simp: uniform_operand_def split: sum.splits prod.splits
        dest: new_TensorUniform_fields)

lemma weibull_operand_fields:
  "fst (weibull_operand e w r a siz gpu kw) = Inr op \<Longrightarrow>
     op_gpu op = gpu_flag gpu \<and> op_class op = TensorWeibull
     \<and> handle_size siz = Inr (op_size op)
     \<and> op_state op = heap (snd (weibull_operand e w r a siz gpu kw)) ! r"
  by (auto simp: weibull_operand_def split: sum.splits prod.splits
        dest: new_TensorWeibull_fields)

text \<open>
  C8. When the caller passes no \<^verbatim>\<open>gpu\<close>, the parameter has its default
  \<^verbatim>\<open>None\<close>, and the gpu field of every operand that \<^verbatim>\<open>uniform\<close> or
  \<^verbatim>\<open>weibull\<close> builds is the boolean false.
\<close>

theorem gpu_default_is_False:
  "(\<forall>op. fst (uniform_operand e w r low high siz PyNone kw) = Inr op \<longrightarrow>
       op_gpu op = PyBool False)
   \<and> (\<forall>op. fst (weibull_operand e w r a siz PyNone kw) = Inr op \<longrightarrow>
       op_gpu op = PyBool False)"
  by (auto dest: uniform_operand_fields weibull_operand_fields)

theorem gpu_default_is_False_witness:
  "map_sum id op_gpu (fst (uniform_operand demo_env demo_world 0 (Scalar 0) (Scalar 1)
         SizeNone PyNone Map.empty)) = Inr (PyBool False)
   \<and> map_sum id op_gpu (fst (weibull_operand demo_env demo_world 0 (Scalar 5)
         SizeNone PyNone Map.empty)) = Inr (PyBool False)"
  using gpu_default_is_False [of demo_env demo_world 0 "Scalar 0" "Scalar 1" SizeNone Map.empty
      "Scalar 5"]
  by (simp add: run_defs)

subsection \<open>Calls that probe\<close>

text \<open>
  What lines 116 to 118 have done when they return without an exception and the key
  was absent: both parameters were normalised, the draw of size \<open>(0,)\<close> was made on
  a generator seeded by the operating system, the dtype of its result is under the
  key \<^verbatim>\<open>dtype\<close>, and the store has one more cell, that generator's.
\<close>

lemma uniform_kw_dtype_probe:
  assumes "kw ''dtype'' = None" and "uniform_kw_dtype e w low high kw = (Inr kw1, w1)"
  shows "\<exists>la ha arr g. handle_array e low = Inr la \<and> handle_array e high = Inr ha
           \<and> np_uniform e (os_seed e (seeds_drawn w)) la ha [0] = (Inr arr, g)
           \<and> kw1 = kw(''dtype'' \<mapsto> PyDtype (arr_dtype arr))
           \<and> w1 = \<lparr>heap = heap w @ [g], seeds_drawn = Suc (seeds_drawn w)\<rparr>"
  using assms
  by (auto simp: uniform_kw_dtype_def np_random_RandomState_def RandomState_uniform_def
        split: sum.splits prod.splits)

lemma weibull_kw_dtype_probe:
  assumes "kw ''dtype'' = None" and "weibull_kw_dtype e w a kw = (Inr kw1, w1)"
  shows "\<exists>aa arr g. handle_array e a = Inr aa
           \<and> np_weibull e (os_seed e (seeds_drawn w)) aa [0] = (Inr arr, g)
           \<and> kw1 = kw(''dtype'' \<mapsto> PyDtype (arr_dtype arr))
           \<and> w1 = \<lparr>heap = heap w @ [g], seeds_drawn = Suc (seeds_drawn w)\<rparr>"
  using assms
  by (auto simp: weibull_kw_dtype_def np_random_RandomState_def RandomState_weibull_def
        split: sum.splits prod.splits)

text \<open>
  The cells that were in the store before the call are as they were after it,
  whether it returns or raises.
\<close>

lemma uniform_kw_dtype_frame:
  "take (length (heap w)) (heap (snd (uniform_kw_dtype e w low high kw))) = heap w"
  by (auto simp: uniform_kw_dtype_def np_random_RandomState_def RandomState_uniform_def
        split: sum.splits prod.splits)

lemma weibull_kw_dtype_frame:
  "take (length (heap w)) (heap (snd (weibull_kw_dtype e w a kw))) = heap w"
  by (auto simp: weibull_kw_dtype_def np_random_RandomState_def RandomState_weibull_def
        split: sum.splits prod.splits)

lemma uniform_operand_snd:
  "snd (uniform_operand e w r low high siz gpu kw) = snd (uniform_kw_dtype e w low high kw)"
  by (simp add: uniform_operand_def split: sum.splits prod.splits)

lemma weibull_operand_snd:
  "snd (weibull_operand e w r a siz gpu kw) = snd (weibull_kw_dtype e w a kw)"
  by (simp add: weibull_operand_def split: sum.splits prod.splits)

lemma uniform_frame:
  "take (length (heap w)) (heap (snd (uniform_operand e w r low high siz gpu kw))) = heap w"
  by (simp add: uniform_operand_snd uniform_kw_dtype_frame)

lemma weibull_frame:
  "take (length (heap w)) (heap (snd (weibull_operand e w r a siz gpu kw))) = heap w"
  by (simp add: weibull_operand_snd weibull_kw_dtype_frame)

lemma frame_nth:
  assumes "take (length xs) ys = xs" and "r < length xs"
  shows "ys ! r = xs ! r"
proof -
  from assms(2) have "take (length xs) ys ! r = ys ! r" by simp
  with assms(1) show ?thesis by simp
qed

text \<open>
  C1. When \<^verbatim>\<open>uniform\<close> or \<^verbatim>\<open>weibull\<close> is called without the keyword
  \<^verbatim>\<open>dtype\<close>, the dtype of the operand it builds is the dtype of the array that
  the eager NumPy draw returns on the normalised parameters with size \<open>(0,)\<close>,
  given that \<^verbatim>\<open>np.dtype\<close> returns a dtype object as it is.
\<close>

theorem probed_dtype_is_numpy_dtype:
  assumes "kw ''dtype'' = None" and "\<forall>d. np_dtype e (PyDtype d) = Inr d"
  shows "(\<forall>op. fst (uniform_operand e w r low high siz gpu kw) = Inr op \<longrightarrow>
            (\<exists>la ha arr g. handle_array e low = Inr la \<and> handle_array e high = Inr ha
               \<and> np_uniform e (os_seed e (seeds_drawn w)) la ha [0] = (Inr arr, g)
               \<and> op_dtype op = Some (arr_dtype arr)))
       \<and> (\<forall>op. fst (weibull_operand e w r a siz gpu kw) = Inr op \<longrightarrow>
            (\<exists>aa arr g. handle_array e a = Inr aa
               \<and> np_weibull e (os_seed e (seeds_drawn w)) aa [0] = (Inr arr, g)
               \<and> op_dtype op = Some (arr_dtype arr)))"
proof (intro conjI allI impI)
  fix op
  assume ok: "fst (uniform_operand e w r low high siz gpu kw) = Inr op"
  then obtain kw1 w1 sz where
    step: "uniform_kw_dtype e w low high kw = (Inr kw1, w1)" and
    new: "new_TensorUniform e sz (heap w1 ! r) gpu kw1 = Inr op"
    by (auto simp: uniform_operand_def split: sum.splits prod.splits)
  from uniform_kw_dtype_probe [OF assms(1) step] obtain la ha arr g where
    p: "handle_array e low = Inr la" "handle_array e high = Inr ha"
       "np_uniform e (os_seed e (seeds_drawn w)) la ha [0] = (Inr arr, g)"
       "kw1 = kw(''dtype'' \<mapsto> PyDtype (arr_dtype arr))"
    by blast
  from new_TensorUniform_dtype [OF new] p(4) assms(2)
  have "op_dtype op = Some (arr_dtype arr)" by simp
  with p show "\<exists>la ha arr g. handle_array e low = Inr la \<and> handle_array e high = Inr ha
               \<and> np_uniform e (os_seed e (seeds_drawn w)) la ha [0] = (Inr arr, g)
               \<and> op_dtype op = Some (arr_dtype arr)" by blast
next
  fix op
  assume ok: "fst (weibull_operand e w r a siz gpu kw) = Inr op"
  then obtain kw1 w1 sz where
    step: "weibull_kw_dtype e w a kw = (Inr kw1, w1)" and
    new: "new_TensorWeibull e sz (heap w1 ! r) gpu kw1 = Inr op"
    by (auto simp: weibull_operand_def split: sum.splits prod.splits)
  from weibull_kw_dtype_probe [OF assms(1) step] obtain aa arr g where
    p: "handle_array e a = Inr aa"
       "np_weibull e (os_seed e (seeds_drawn w)) aa [0] = (Inr arr, g)"
       "kw1 = kw(''dtype'' \<mapsto> PyDtype (arr_dtype arr))"
    by blast
  from new_TensorWeibull_dtype [OF new] p(3) assms(2)
  have "op_dtype op = Some (arr_dtype arr)" by simp
  with p show "\<exists>aa arr g. handle_array e a = Inr aa
               \<and> np_weibull e (os_seed e (seeds_drawn w)) aa [0] = (Inr arr, g)
               \<and> op_dtype op = Some (arr_dtype arr)" by blast
qed

theorem probed_dtype_is_numpy_dtype_witness:
  "(Map.empty :: kwargs) ''dtype'' = None
   \<and> (\<forall>d. np_dtype demo_env (PyDtype d) = Inr d)
   \<and> map_sum id op_dtype (fst (uniform_operand demo_env demo_world 0 (Scalar 0) (Scalar 1)
         SizeNone PyNone Map.empty)) = Inr (Some float64)
   \<and> map_sum id arr_dtype (fst (np_uniform demo_env (os_seed demo_env (seeds_drawn demo_world))
         (Scalar 0) (Scalar 1) [0])) = Inr float64
   \<and> map_sum id op_dtype (fst (weibull_operand demo_env demo_world 0 (Scalar 5)
         SizeNone PyNone Map.empty)) = Inr (Some float64)
   \<and> map_sum id arr_dtype (fst (np_weibull demo_env (os_seed demo_env (seeds_drawn demo_world))
         (Scalar 5) [0])) = Inr float64"
  using probed_dtype_is_numpy_dtype [of Map.empty demo_env demo_world 0 "Scalar 0" "Scalar 1"
      SizeNone PyNone "Scalar 5"]
  by (simp add: run_defs)

text \<open>
  The outcome of the probe does not depend on what the cells of the store hold, and
  the dtype of the operand does not depend on the state handed to the constructor.
\<close>

lemma uniform_kw_dtype_indep:
  "fst (uniform_kw_dtype e (w\<lparr>heap := (heap w)[r := g]\<rparr>) low high kw)
     = fst (uniform_kw_dtype e w low high kw)"
  by (auto simp: uniform_kw_dtype_def np_random_RandomState_def RandomState_uniform_def
        nth_append split: sum.splits prod.splits)

lemma weibull_kw_dtype_indep:
  "fst (weibull_kw_dtype e (w\<lparr>heap := (heap w)[r := g]\<rparr>) a kw)
     = fst (weibull_kw_dtype e w a kw)"
  by (auto simp: weibull_kw_dtype_def np_random_RandomState_def RandomState_weibull_def
        nth_append split: sum.splits prod.splits)

lemma new_TensorUniform_state_indep:
  "map_sum id op_dtype (new_TensorUniform e sz st gpu kw)
     = map_sum id op_dtype (new_TensorUniform e sz st' gpu kw)"
  by (cases "np_dtype e (the (kw ''dtype''))")
     (auto simp: ctor_defs split: option.splits)

lemma new_TensorWeibull_state_indep:
  "map_sum id op_dtype (new_TensorWeibull e sz st gpu kw)
     = map_sum id op_dtype (new_TensorWeibull e sz st' gpu kw)"
  by (cases "np_dtype e (the (kw ''dtype''))")
     (auto simp: ctor_defs split: option.splits)

lemma uniform_operand_dtype_indep:
  "map_sum id op_dtype (fst (uniform_operand e (w\<lparr>heap := (heap w)[r := g]\<rparr>) r low high siz gpu kw))
     = map_sum id op_dtype (fst (uniform_operand e w r low high siz gpu kw))"
proof -
  obtain x w1 where a: "uniform_kw_dtype e w low high kw = (x, w1)" by force
  obtain y w2 where b: "uniform_kw_dtype e (w\<lparr>heap := (heap w)[r := g]\<rparr>) low high kw = (y, w2)"
    by force
  from a b uniform_kw_dtype_indep [of e w r g low high kw] have "y = x" by simp
  with a b show ?thesis
    using new_TensorUniform_state_indep
    by (auto simp: uniform_operand_def split: sum.splits)
qed

lemma weibull_operand_dtype_indep:
  "map_sum id op_dtype (fst (weibull_operand e (w\<lparr>heap := (heap w)[r := g]\<rparr>) r a siz gpu kw))
     = map_sum id op_dtype (fst (weibull_operand e w r a siz gpu kw))"
proof -
  obtain x w1 where a: "weibull_kw_dtype e w a kw = (x, w1)" by force
  obtain y w2 where b: "weibull_kw_dtype e (w\<lparr>heap := (heap w)[r := g]\<rparr>) a kw = (y, w2)"
    by force
  from a b weibull_kw_dtype_indep [of e w r g a kw] have "y = x" by simp
  with a b show ?thesis
    using new_TensorWeibull_state_indep
    by (auto simp: weibull_operand_def split: sum.splits)
qed

text \<open>
  C3. The probe draws from a generator of its own and leaves the caller's
  \<^verbatim>\<open>random_state\<close> alone. For a caller's object in the cell \<open>r\<close> of the store:
  the cell holds after the call what it held before, whether the call probes or
  not and whether it returns or raises; the state stored in the operand is that
  value; a run that probes and a run with an explicit dtype store the same state
  and leave the same value in the cell; and the dtype that the probe derives is
  the same whatever the cell holds.
\<close>

theorem probe_leaves_random_state:
  assumes "r < length (heap w)"
  shows "heap (snd (uniform_operand e w r low high siz gpu kw)) ! r = heap w ! r
       \<and> heap (snd (weibull_operand e w r a siz gpu kw)) ! r = heap w ! r
       \<and> (\<forall>op. fst (uniform_operand e w r low high siz gpu kw) = Inr op \<longrightarrow>
             op_state op = heap w ! r)
       \<and> (\<forall>op. fst (weibull_operand e w r a siz gpu kw) = Inr op \<longrightarrow>
             op_state op = heap w ! r)
       \<and> (\<forall>v op1 op2. kw ''dtype'' = None \<longrightarrow>
             fst (uniform_operand e w r low high siz gpu kw) = Inr op1 \<longrightarrow>
             fst (uniform_operand e w r low high siz gpu (kw(''dtype'' \<mapsto> v))) = Inr op2 \<longrightarrow>
             op_state op1 = op_state op2
             \<and> heap (snd (uniform_operand e w r low high siz gpu kw)) ! r
               = heap (snd (uniform_operand e w r low high siz gpu (kw(''dtype'' \<mapsto> v)))) ! r)
       \<and> (\<forall>v op1 op2. kw ''dtype'' = None \<longrightarrow>
             fst (weibull_operand e w r a siz gpu kw) = Inr op1 \<longrightarrow>
             fst (weibull_operand e w r a siz gpu (kw(''dtype'' \<mapsto> v))) = Inr op2 \<longrightarrow>
             op_state op1 = op_state op2
             \<and> heap (snd (weibull_operand e w r a siz gpu kw)) ! r
               = heap (snd (weibull_operand e w r a siz gpu (kw(''dtype'' \<mapsto> v)))) ! r)
       \<and> (\<forall>g. map_sum id op_dtype
                  (fst (uniform_operand e (w\<lparr>heap := (heap w)[r := g]\<rparr>) r low high siz gpu kw))
               = map_sum id op_dtype (fst (uniform_operand e w r low high siz gpu kw)))
       \<and> (\<forall>g. map_sum id op_dtype
                  (fst (weibull_operand e (w\<lparr>heap := (heap w)[r := g]\<rparr>) r a siz gpu kw))
               = map_sum id op_dtype (fst (weibull_operand e w r a siz gpu kw)))"
proof -
  have u: "heap (snd (uniform_operand e w r low high siz gpu k)) ! r = heap w ! r" for k
    using frame_nth [OF uniform_frame assms] .
  have v: "heap (snd (weibull_operand e w r a siz gpu k)) ! r = heap w ! r" for k
    using frame_nth [OF weibull_frame assms] .
  have us: "op_state op = heap w ! r"
    if "fst (uniform_operand e w r low high siz gpu k) = Inr op" for op k
    using uniform_operand_fields [OF that] u by simp
  have vs: "op_state op = heap w ! r"
    if "fst (weibull_operand e w r a siz gpu k) = Inr op" for op k
    using weibull_operand_fields [OF that] v by simp
  show ?thesis
    using u v us vs uniform_operand_dtype_indep weibull_operand_dtype_indep by simp
qed

theorem probe_leaves_random_state_witness:
  "0 < length (heap demo_world)
   \<and> heap demo_world ! 0 = 7
   \<and> snd (uniform_operand demo_env demo_world 0 (Scalar 0) (Scalar 1) SizeNone PyNone Map.empty)
       = \<lparr>heap = [7, 100], seeds_drawn = 1\<rparr>
   \<and> snd (weibull_operand demo_env demo_world 0 (Scalar 5) SizeNone PyNone Map.empty)
       = \<lparr>heap = [7, 100], seeds_drawn = 1\<rparr>
   \<and> map_sum id op_state (fst (uniform_operand demo_env demo_world 0 (Scalar 0) (Scalar 1)
        SizeNone PyNone Map.empty)) = Inr 7
   \<and> map_sum id op_state (fst (uniform_operand demo_env demo_world 0 (Scalar 0) (Scalar 1)
        SizeNone PyNone [''dtype'' \<mapsto> PyDtype float64])) = Inr 7
   \<and> map_sum id op_state (fst (weibull_operand demo_env demo_world 0 (Scalar 5)
        SizeNone PyNone Map.empty)) = Inr 7"
  using probe_leaves_random_state [of 0 demo_world demo_env "Scalar 0" "Scalar 1" SizeNone PyNone
      Map.empty "Scalar 5"]
  by (simp add: run_defs)

subsection \<open>Parameter domains\<close>







subsection \<open>Node construction\<close>





text \<open>
  C6. The call \<^verbatim>\<open>uniform(randomState, low=5.0, high=5.0, size=10)\<close> raises
  nothing and returns a node of shape \<open>(10,)\<close>, given that the normaliser, the
  zero-size NumPy draw and \<^verbatim>\<open>np.dtype\<close> accept the bounds \<open>5.0\<close>, \<open>5.0\<close>.
\<close>

theorem equal_bounds_shape:
  assumes "handle_array e (Scalar 5) = Inr la"
    and "np_uniform e (os_seed e (seeds_drawn w)) la la [0] = (Inr arr, g)"
    and "np_dtype e (PyDtype (arr_dtype arr)) = Inr d"
  shows "\<exists>n. fst (uniform e w r (Scalar 5) (Scalar 5) (SizeInt 10) PyNone PyNone Map.empty) = Inr n
           \<and> node_shape n = [10]"
  using assms
  by (simp add: uniform_def uniform_operand_def uniform_kw_dtype_def np_random_RandomState_def
        RandomState_uniform_def handle_size_def new_TensorUniform_def TensorUniform_init_def
        Operand_init_def TensorUniform_call_def new_tensor_def)

theorem equal_bounds_shape_witness:
  "handle_array demo_env (Scalar 5) = Inr (Scalar 5)
   \<and> np_uniform demo_env (os_seed demo_env (seeds_drawn demo_world)) (Scalar 5) (Scalar 5) [0]
       = (Inr \<lparr>arr_dtype = float64, arr_shape = [0]\<rparr>, 100)
   \<and> np_dtype demo_env (PyDtype float64) = Inr float64
   \<and> map_sum id node_shape (fst (uniform demo_env demo_world 0 (Scalar 5) (Scalar 5) (SizeInt 10)
        PyNone PyNone Map.empty)) = Inr [10]"
proof -
  have a: "handle_array demo_env (Scalar 5) = Inr (Scalar 5)"
    by (simp add: demo_env_def handle_array_spec_def)
  have b: "np_uniform demo_env (os_seed demo_env (seeds_drawn demo_world)) (Scalar 5) (Scalar 5) [0]
       = (Inr \<lparr>arr_dtype = float64, arr_shape = [0]\<rparr>, 100)"
    by (simp add: run_defs)
  have c: "np_dtype demo_env (PyDtype (arr_dtype \<lparr>arr_dtype = float64, arr_shape = [0]\<rparr>))
       = Inr float64"
    by (simp add: demo_env_def)
  from equal_bounds_shape [OF a b c, of 0] obtain n where
    "fst (uniform demo_env demo_world 0 (Scalar 5) (Scalar 5) (SizeInt 10) PyNone PyNone Map.empty)
       = Inr n" "node_shape n = [10]" by blast
  with a b c show ?thesis by simp
qed

text \<open>
  C7. Construction with the same parameters, size, dtype, chunk hint, gpu flag and
  random state gives equal results (the same node with the same operand, field by
  field, or the same exception) in any two stores, and leaves the store as it
  was: so two constructions give equal operands in either order.
\<close>

theorem construction_deterministic:
  assumes "kw ''dtype'' = Some v" and "heap w1 ! r1 = heap w2 ! r2"
  shows "fst (uniform e w1 r1 low high siz chunks gpu kw)
           = fst (uniform e w2 r2 low high siz chunks gpu kw)
       \<and> snd (uniform e w1 r1 low high siz chunks gpu kw) = w1
       \<and> fst (weibull e w1 r1 a siz chunks gpu kw) = fst (weibull e w2 r2 a siz chunks gpu kw)
       \<and> snd (weibull e w1 r1 a siz chunks gpu kw) = w1"
  using assms
  by (simp add: uniform_def weibull_def uniform_operand_explicit weibull_operand_explicit
        split: sum.splits)

theorem construction_deterministic_witness:
  "[''dtype'' \<mapsto> PyDtype float64] ''dtype'' = Some (PyDtype float64)
   \<and> heap demo_world ! 0 = heap \<lparr>heap = [3, 7], seeds_drawn = 4\<rparr> ! 1
   \<and> fst (uniform demo_env demo_world 0 (Scalar 0) (Scalar 1) (SizeInt 10) PyNone PyNone
        [''dtype'' \<mapsto> PyDtype float64])
     = fst (uniform demo_env \<lparr>heap = [3, 7], seeds_drawn = 4\<rparr> 1 (Scalar 0) (Scalar 1) (SizeInt 10)
        PyNone PyNone [''dtype'' \<mapsto> PyDtype float64])
   \<and> map_sum id (\<lambda>n. (node_shape n, op_dtype (node_op n), op_state (node_op n)))
        (fst (uniform demo_env demo_world 0 (Scalar 0) (Scalar 1) (SizeInt 10) PyNone PyNone
           [''dtype'' \<mapsto> PyDtype float64])) = Inr ([10], Some float64, 7)"
  using construction_deterministic [of "[''dtype'' \<mapsto> PyDtype float64]" "PyDtype float64"
      demo_world 0 "\<lparr>heap = [3, 7], seeds_drawn = 4\<rparr>" 1 demo_env "Scalar 0" "Scalar 1"
      "SizeInt 10" PyNone PyNone "Scalar 5"]
  by (simp add: run_defs)

end
